theory Spec2Isabelle
  imports Complex_Main
begin

section \<open>The probing module of the firmware (ZProbe.cpp)\<close>

text \<open>
  The module has two halves. The sampler \<open>read_probe\<close> is attached to a 100 Hz
  ticker; the command half (\<open>run_probe\<close>, \<open>run_probe_return\<close>, \<open>probe_XYZ\<close>,
  the \<open>move_*\<close> helpers and \<open>handle_gcode\<close>) issues motion and blocks in
  \<open>wait_for_idle\<close>. Both halves work on the fields of the one \<open>ZProbe\<close> object.

  Every call the module makes on a collaborator (the actuators, the robot, the conveyor,
  the dispatcher, the output stream) is logged, in program order, as an \<open>event\<close> in
  the field \<open>trace\<close>. Every value the module reads from a collaborator is an input of
  the model (the records \<open>tick\<close> and \<open>env\<close>). C++ \<open>float\<close> is modelled by
  \<open>real\<close>.
\<close>

subsection \<open>Data\<close>

datatype arg = F real | I int

datatype strategy_slot = Leveling | Calibration

datatype event =
    is_stop: StopMoving nat
  | SafeSleep real
  | is_delta_move: DeltaMove "real list" real nat
  | WaitForIdle
  | SetLastProbePosition real real real int
  | ResetPositionFromCurrentActuatorPosition
  | SetDisableSegmentation bool
  | PushState
  | SetAbsoluteMode bool
  | SetNextCommandIsMCS bool
  | PopState
  | is_dispatch: Dispatch char int "(char \<times> real) list"
  | is_printf: Printf string "arg list"
  | is_halt: BroadcastHalt bool
  | HandleGCode strategy_slot

text \<open>\<open>GCode\<close>: the four accessors the module calls.\<close>

record gcode =
  get_code :: int
  get_subcode :: int
  has_arg :: "char \<Rightarrow> bool"
  get_arg :: "char \<Rightarrow> real"

text \<open>
  A strategy is opaque to the module: \<open>handleGCode\<close> answers whether it handled the
  command. A null strategy pointer is \<open>None\<close>.
\<close>

type_synonym strategy = "gcode \<Rightarrow> bool"

text \<open>
  Modelled from the spec: the field declarations of the class (ZProbe.h) are not among the
  sources. The spec gives the debounce count as an integer \<open>\<ge> 0\<close> and the threshold as a
  number of sampling ticks, so both are \<open>nat\<close>; the feedrates, \<open>max_z\<close> and the dwell
  are read with \<open>get_float\<close>. \<open>n_actuators\<close> is the length of
  \<open>Robot::actuators\<close>.
\<close>

record zprobe =
  probing :: bool
  probe_detected :: bool
  debounce :: nat
  debounce_ms :: nat
  slow_feedrate :: real
  fast_feedrate :: real
  return_feedrate :: real
  max_z :: real
  reverse_z :: bool
  dwell_before_probing :: real
  is_rdelta :: bool
  leveling_strategy :: "strategy option"
  calibration_strategy :: "strategy option"
  n_actuators :: nat
  trace :: "event list"

text \<open>What one run of the sampler reads: the three \<open>is_moving\<close> flags and the pin.\<close>

record tick =
  x_moving :: bool
  y_moving :: bool
  z_moving :: bool
  pin_active :: bool

text \<open>
  What the command half reads from its collaborators during one command, and the sampler
  runs that fall into each of its blocking calls:
  \<^item> \<open>pin_get_cmd\<close>: \<open>pin.get()\<close> in \<open>handle_gcode\<close>; \<open>pin_get\<close>: \<open>pin.get()\<close> at
    the entry of \<open>run_probe\<close>;
  \<^item> \<open>z_start_pos\<close>, \<open>z_end_pos\<close>: \<open>actuators[Z_AXIS]->get_current_position()\<close>
    before and after the probing move;
  \<^item> \<open>axis_z\<close>: \<open>get_axis_position(Z_AXIS)\<close> in \<open>run_probe_return\<close>;
    \<open>axis_pos\<close>: \<open>get_axis_position(pos, 3)\<close> in \<open>probe_XYZ\<close>;
  \<^item> \<open>mm_initial\<close>: the content of the uninitialised local \<open>float mm\<close> of
    \<open>handle_gcode\<close>;
  \<^item> \<open>idle_ticks\<close>, \<open>sleep_ticks\<close>, \<open>probe_ticks\<close>, \<open>return_ticks\<close>: the sampler runs
    during the \<open>wait_for_idle\<close> of \<open>handle_gcode\<close>, during \<open>safe_sleep\<close>, during
    the \<open>wait_for_idle\<close> that follows the probing move, and during the
    \<open>wait_for_idle\<close> of the return move.
  The sampler is taken to run only while the command half blocks.
\<close>

record env =
  pin_get_cmd :: bool
  pin_get :: bool
  z_start_pos :: real
  z_end_pos :: real
  axis_z :: real
  axis_pos :: "real \<times> real \<times> real"
  mm_initial :: real
  idle_ticks :: "tick list"
  sleep_ticks :: "tick list"
  probe_ticks :: "tick list"
  return_ticks :: "tick list"

datatype fault = NullPointerDereference

definition X_AXIS :: int where "X_AXIS = 0"
definition Y_AXIS :: int where "Y_AXIS = 1"
definition Z_AXIS :: int where "Z_AXIS = 2"

text \<open>The line feed that ends the format strings.\<close>

definition nl :: string where
  "nl = [CHR 0x0A]"

definition emit :: "event \<Rightarrow> zprobe \<Rightarrow> zprobe" where
  "emit ev s = s\<lparr>trace := trace s @ [ev]\<rparr>"

subsection \<open>The sampler\<close>

text \<open>\<open>for(auto &a : Robot::getInstance()->actuators) a->stop_moving();\<close>\<close>

definition stop_all :: "zprobe \<Rightarrow> zprobe" where
  "stop_all s = s\<lparr>trace := trace s @ map StopMoving [0..<n_actuators s]\<rparr>"

definition any_moving :: "tick \<Rightarrow> bool" where
  "any_moving t = (x_moving t \<or> y_moving t \<or> z_moving t)"

definition read_probe :: "tick \<Rightarrow> zprobe \<Rightarrow> zprobe" where
  "read_probe t s =
     (if \<not> probing s then s
      else if probe_detected s then s
      else if any_moving t then
        (if pin_active t then
           (if debounce s < debounce_ms s then s\<lparr>debounce := debounce s + 1\<rparr>
            else (stop_all s)\<lparr>probe_detected := True, debounce := 0\<rparr>)
         else s\<lparr>debounce := 0\<rparr>)
      else s)"

text \<open>A sequence of sampler runs, oldest first.\<close>

fun run_ticks :: "tick list \<Rightarrow> zprobe \<Rightarrow> zprobe" where
  "run_ticks [] s = s"
| "run_ticks (t # ts) s = run_ticks ts (read_probe t s)"

text \<open>The number of runs in the sequence at which \<open>probe_detected\<close> goes from false to true.\<close>

fun detections :: "tick list \<Rightarrow> zprobe \<Rightarrow> nat" where
  "detections [] s = 0"
| "detections (t # ts) s =
     (if probe_detected s then 0 else if probe_detected (read_probe t s) then 1 else 0)
       + detections ts (read_probe t s)"

subsection \<open>Blocking calls\<close>

definition wait_for_idle :: "tick list \<Rightarrow> zprobe \<Rightarrow> zprobe" where
  "wait_for_idle ticks s = run_ticks ticks (emit WaitForIdle s)"

definition safe_sleep :: "tick list \<Rightarrow> real \<Rightarrow> zprobe \<Rightarrow> zprobe" where
  "safe_sleep ticks ms s = run_ticks ticks (emit (SafeSleep ms) s)"

subsection \<open>The supervised moves\<close>

definition move_x :: "real \<Rightarrow> real \<Rightarrow> bool \<Rightarrow> zprobe \<Rightarrow> zprobe" where
  "move_x x feedrate relative s =
     (let s1 = emit PushState s;
          s2 = emit (SetAbsoluteMode (\<not> relative)) s1;
          s3 = emit (SetNextCommandIsMCS True) s2;
          s4 = emit (Dispatch (CHR ''G'') 0 [(CHR ''X'', x), (CHR ''F'', feedrate * 60)]) s3
      in emit PopState s4)"

definition move_y :: "tick list \<Rightarrow> real \<Rightarrow> real \<Rightarrow> bool \<Rightarrow> zprobe \<Rightarrow> zprobe" where
  "move_y ticks y feedrate relative s =
     (let s1 = emit PushState s;
          s2 = emit (SetAbsoluteMode (\<not> relative)) s1;
          s3 = emit (SetNextCommandIsMCS True) s2;
          s4 = emit (Dispatch (CHR ''G'') 0 [(CHR ''Y'', y), (CHR ''F'', feedrate * 60)]) s3;
          s5 = wait_for_idle ticks s4
      in emit PopState s5)"

definition move_z :: "tick list \<Rightarrow> real \<Rightarrow> real \<Rightarrow> bool \<Rightarrow> zprobe \<Rightarrow> zprobe" where
  "move_z ticks z feedrate relative s =
     (let s1 = emit PushState s;
          s2 = emit (SetAbsoluteMode (\<not> relative)) s1;
          s3 = emit (SetNextCommandIsMCS True) s2;
          s4 = emit (Dispatch (CHR ''G'') 0 [(CHR ''Z'', z), (CHR ''F'', feedrate * 60)]) s3;
          s5 = wait_for_idle ticks s4
      in emit PopState s5)"

subsection \<open>The probing operations\<close>

text \<open>
  \<open>run_probe\<close> returns its boolean and the content of the reference parameter \<open>mm\<close>
  at return; \<open>mm\<close> is what the caller's variable held at the call.
\<close>

definition run_probe ::
  "env \<Rightarrow> real \<Rightarrow> real \<Rightarrow> real \<Rightarrow> bool \<Rightarrow> zprobe \<Rightarrow> (bool \<times> real) \<times> zprobe" where
  "run_probe e mm feedrate max_dist reverse s =
     (if pin_get e then ((False, mm), s)
      else
        (let maxz = (if max_dist < 0 then max_z s * 2 else max_dist);
             s1 = s\<lparr>probing := True, probe_detected := False, debounce := 0\<rparr>;
             z_start = z_start_pos e;
             s2 = (if dwell_before_probing s1 > 1 / 10000
                   then safe_sleep (sleep_ticks e) (dwell_before_probing s1 * 1000) s1
                   else s1);
             dir = ((\<not> reverse_z s2) \<noteq> reverse);
             delta = [0, 0, if dir then - maxz else maxz];
             s3 = emit (DeltaMove delta feedrate 3) s2;
             s4 = wait_for_idle (probe_ticks e) s3;
             mm' = z_start - z_end_pos e;
             s5 = emit (SetLastProbePosition 0 0 mm' (if probe_detected s4 then 1 else 0)) s4;
             s6 = s5\<lparr>probing := False\<rparr>;
             s7 = (if probe_detected s6
                   then emit ResetPositionFromCurrentActuatorPosition s6
                   else s6)
         in ((probe_detected s7, mm'), s7)))"

definition run_probe_return ::
  "env \<Rightarrow> real \<Rightarrow> real \<Rightarrow> real \<Rightarrow> bool \<Rightarrow> zprobe \<Rightarrow> (bool \<times> real) \<times> zprobe" where
  "run_probe_return e mm feedrate max_dist reverse s =
     (let save_z_pos = axis_z e;
          ((ok, mm'), s1) = run_probe e mm feedrate max_dist reverse s;
          fr = (if return_feedrate s1 \<noteq> 0 then return_feedrate s1
                else (let fr2 = slow_feedrate s1 * 2
                      in if fr2 > fast_feedrate s1 then fast_feedrate s1 else fr2));
          s2 = move_z (return_ticks e) save_z_pos fr False s1
      in ((ok, mm'), s2))"

definition probe_XYZ :: "env \<Rightarrow> gcode \<Rightarrow> int \<Rightarrow> zprobe \<Rightarrow> zprobe" where
  "probe_XYZ e g axis s =
     (let s1 = s\<lparr>probing := True, probe_detected := False\<rparr>;
          s2 = emit (SetDisableSegmentation True) s1;
          rate = (if has_arg g (CHR ''F'') then get_arg g (CHR ''F'') / 60 else slow_feedrate s2);
          s3 = (if axis = X_AXIS then move_x (get_arg g (CHR ''X'')) rate True s2
                else if axis = Y_AXIS then move_y (probe_ticks e) (get_arg g (CHR ''Y'')) rate True s2
                else if axis = Z_AXIS then move_z (probe_ticks e) (get_arg g (CHR ''Z'')) rate True s2
                else s2);
          s4 = s3\<lparr>probing := False\<rparr>;
          s5 = emit (SetDisableSegmentation False) s4;
          s6 = emit ResetPositionFromCurrentActuatorPosition s5;
          (px, py, pz) = axis_pos e;
          probeok = (if probe_detected s6 then 1 else 0);
          s7 = emit (Printf (''[PRB:%1.3f,%1.3f,%1.3f:%d]'' @ nl) [F px, F py, F pz, I probeok]) s6;
          s8 = emit (SetLastProbePosition px py pz probeok) s7
      in if probeok = 0 \<and> get_subcode g = 2
         then emit (BroadcastHalt True) (emit (Printf (''ALARM: Probe fail'' @ nl) []) s8)
         else s8)"

subsection \<open>The command handler\<close>

text \<open>
  \<open>p->handleGCode(gcode, os)\<close> through a strategy pointer \<open>p\<close>. The handler calls it
  with no test of \<open>p\<close>; through a null pointer the call is a fault and the handler
  does not return.
\<close>

definition call_strategy ::
  "strategy_slot \<Rightarrow> strategy option \<Rightarrow> gcode \<Rightarrow> zprobe \<Rightarrow> fault + (bool \<times> zprobe)" where
  "call_strategy slot p g s =
     (case p of
        None \<Rightarrow> Inl NullPointerDereference
      | Some h \<Rightarrow> Inr (h g, emit (HandleGCode slot) s))"

text \<open>
  \<open>uint16_t i = gcode.get_arg('P')\<close>: the conversion drops the fraction. A value outside
  the range of the type has no defined result in C++; the model wraps it.
\<close>

definition to_uint16 :: "real \<Rightarrow> int" where
  "to_uint16 x = (if x < 0 then \<lceil>x\<rceil> else \<lfloor>x\<rfloor>) mod 65536"

definition handle_gcode :: "env \<Rightarrow> gcode \<Rightarrow> zprobe \<Rightarrow> fault + (bool \<times> zprobe)" where
  "handle_gcode e g s =
     (if get_code g \<ge> 29 \<and> get_code g \<le> 32 then
        (if pin_get_cmd e
         then Inr (True, emit (Printf (''ZProbe triggered before move, aborting command.'' @ nl) []) s)
         else if get_code g = 30 then
           (let s1 = wait_for_idle (idle_ticks e) s;
                set_z = (has_arg g (CHR ''Z'') \<and> \<not> is_rdelta s1);
                reverse = (has_arg g (CHR ''R'') \<and> get_arg g (CHR ''R'') \<noteq> 0);
                rate = (if has_arg g (CHR ''F'') then get_arg g (CHR ''F'') / 60
                        else slow_feedrate s1);
                ((probe_result, mm), s2) =
                   (if set_z then run_probe e (mm_initial e) rate (- 1) reverse s1
                    else run_probe_return e (mm_initial e) rate (- 1) reverse s1)
            in if probe_result then
                 (let s3 = emit (Printf (''Z:%1.4f'' @ nl) [F mm]) s2
                  in Inr (True,
                       if set_z
                       then emit (Dispatch (CHR ''G'') 92 [(CHR ''Z'', get_arg g (CHR ''Z''))]) s3
                       else s3))
               else Inr (True, emit (Printf (''ZProbe not triggered'' @ nl) []) s2))
         else if \<not> has_arg g (CHR ''P'') then
           (case call_strategy Leveling (leveling_strategy s) g s of
              Inl f \<Rightarrow> Inl f
            | Inr (handled, s1) \<Rightarrow>
                if handled then Inr (True, s1)
                else
                  (case call_strategy Calibration (calibration_strategy s1) g s1 of
                     Inl f \<Rightarrow> Inl f
                   | Inr (handled2, s2) \<Rightarrow>
                       if handled2 then Inr (True, s2)
                       else Inr (False,
                              emit (Printf (''No strategy found to handle G%d'' @ nl)
                                      [I (get_code g)]) s2)))
         else
           (let i = to_uint16 (get_arg g (CHR ''P''))
            in if i = 0 then
                 (case call_strategy Leveling (leveling_strategy s) g s of
                    Inl f \<Rightarrow> Inl f
                  | Inr (handled, s1) \<Rightarrow>
                      if handled then Inr (True, s1)
                      else Inr (False,
                             emit (Printf (''strategy #%d did not handle G%d'' @ nl)
                                     [I i, I (get_code g)]) s1))
               else if i = 1 then
                 (case call_strategy Calibration (calibration_strategy s) g s of
                    Inl f \<Rightarrow> Inl f
                  | Inr (handled, s1) \<Rightarrow>
                      if handled then Inr (True, s1)
                      else Inr (False,
                             emit (Printf (''strategy #%d did not handle G%d'' @ nl)
                                     [I i, I (get_code g)]) s1))
               else Inr (False, emit (Printf (''Only P0 ad P1 supported'' @ nl) []) s)))
      else if get_code g = 38 then
        (if get_subcode g \<noteq> 2 \<and> get_subcode g \<noteq> 3
         then Inr (False, emit (Printf (''error:Only G38.2 and G38.3 are supported'' @ nl) []) s)
         else if pin_get_cmd e
         then Inr (True,
                emit (Printf (''error:ZProbe triggered before move, aborting command.'' @ nl) []) s)
         else
           (let s1 = wait_for_idle (idle_ticks e) s
            in if has_arg g (CHR ''X'') then Inr (True, probe_XYZ e g X_AXIS s1)
               else if has_arg g (CHR ''Y'') then Inr (True, probe_XYZ e g Y_AXIS s1)
               else if has_arg g (CHR ''Z'') then Inr (True, probe_XYZ e g Z_AXIS s1)
               else Inr (True,
                      emit (Printf (''error:at least one of X Y or Z must be specified'' @ nl) [])
                        s1)))
      else Inr (False, s))"

subsection \<open>Observations on a trace\<close>

text \<open>The calls of the command half: everything but the sampler's \<open>stop_moving\<close>.\<close>

definition commands :: "event list \<Rightarrow> event list" where
  "commands tr = filter (\<lambda>ev. \<not> is_stop ev) tr"

text \<open>The motion requests: \<open>delta_move\<close> calls and dispatched commands.\<close>

definition moves :: "event list \<Rightarrow> event list" where
  "moves tr = filter (\<lambda>ev. is_delta_move ev \<or> is_dispatch ev) tr"

subsection \<open>Sample inputs\<close>

text \<open>
  A configured, idle module with the defaults of \<open>configure\<close> (no strategy, three
  actuators), a threshold of two ticks and \<open>max_z\<close> of 100.
\<close>

definition idle_probe :: zprobe where
  "idle_probe =
     \<lparr>probing = False, probe_detected = False, debounce = 0, debounce_ms = 2,
      slow_feedrate = 5, fast_feedrate = 100, return_feedrate = 0, max_z = 100,
      reverse_z = False, dwell_before_probing = 0, is_rdelta = False,
      leveling_strategy = None, calibration_strategy = None, n_actuators = 3, trace = []\<rparr>"

definition armed_probe :: zprobe where
  "armed_probe = idle_probe\<lparr>probing := True\<rparr>"

definition hit :: tick where
  "hit = \<lparr>x_moving = False, y_moving = False, z_moving = True, pin_active = True\<rparr>"

definition miss :: tick where
  "miss = \<lparr>x_moving = False, y_moving = False, z_moving = True, pin_active = False\<rparr>"

text \<open>An environment in which the pin is open at entry and the move runs two units.\<close>

definition quiet_env :: env where
  "quiet_env =
     \<lparr>pin_get_cmd = False, pin_get = False, z_start_pos = 10, z_end_pos = 8, axis_z = 10,
      axis_pos = (1, 2, 8), mm_initial = 7, idle_ticks = [], sleep_ticks = [],
      probe_ticks = [], return_ticks = []\<rparr>"

definition gcode_of :: "int \<Rightarrow> int \<Rightarrow> (char \<times> real) list \<Rightarrow> gcode" where
  "gcode_of c sub args =
     \<lparr>get_code = c, get_subcode = sub,
      has_arg = (\<lambda>k. case map_of args k of None \<Rightarrow> False | Some v \<Rightarrow> True),
      get_arg = (\<lambda>k. case map_of args k of None \<Rightarrow> 0 | Some v \<Rightarrow> v)\<rparr>"

section \<open>Properties of the sampler\<close>

lemma read_probe_not_probing: "\<not> probing s \<Longrightarrow> read_probe t s = s"
  by (simp add: read_probe_def)

lemma read_probe_detected: "probe_detected s \<Longrightarrow> read_probe t s = s"
  by (simp add: read_probe_def)

lemma read_probe_not_moving: "\<not> any_moving t \<Longrightarrow> read_probe t s = s"
  by (simp add: read_probe_def)

lemma read_probe_probing: "probing (read_probe t s) = probing s"
  by (simp add: read_probe_def stop_all_def)

lemma read_probe_n_actuators: "n_actuators (read_probe t s) = n_actuators s"
  by (simp add: read_probe_def stop_all_def)

lemma read_probe_trace:
  "trace (read_probe t s) =
     trace s @ (if probe_detected s then [] else if probe_detected (read_probe t s)
                then map StopMoving [0..<n_actuators s] else [])"
  by (simp add: read_probe_def stop_all_def)

lemma run_ticks_not_probing: "\<not> probing s \<Longrightarrow> run_ticks ts s = s"
  by (induction ts) (simp_all add: read_probe_not_probing)

lemma run_ticks_detected: "probe_detected s \<Longrightarrow> run_ticks ts s = s"
  by (induction ts) (simp_all add: read_probe_detected)

lemma run_ticks_probing: "probing (run_ticks ts s) = probing s"
  by (induction ts arbitrary: s) (simp_all add: read_probe_probing)

lemma run_ticks_trace:
  "trace (run_ticks ts s) =
     trace s @ (if probe_detected s then [] else if probe_detected (run_ticks ts s)
                then map StopMoving [0..<n_actuators s] else [])"
proof (induction ts arbitrary: s)
  case Nil
  show ?case by simp
next
  case (Cons t ts)
  show ?case
  proof (cases "probe_detected (read_probe t s)")
    case True
    then show ?thesis
      using read_probe_trace [of t s] by (simp add: run_ticks_detected)
  next
    case False
    then have "\<not> probe_detected s" using read_probe_detected [of s t] by auto
    with False show ?thesis
      using Cons.IH [of "read_probe t s"] read_probe_trace [of t s]
      by (simp add: read_probe_n_actuators)
  qed
qed

lemma detections_detected: "probe_detected s \<Longrightarrow> detections ts s = 0"
  by (induction ts) (simp_all add: read_probe_detected)

lemma detections_eq:
  "detections ts s =
     (if probe_detected s then 0 else if probe_detected (run_ticks ts s) then 1 else 0)"
proof (induction ts arbitrary: s)
  case Nil
  show ?case by simp
next
  case (Cons t ts)
  show ?case
  proof (cases "probe_detected (read_probe t s)")
    case True
    then show ?thesis by (simp add: run_ticks_detected detections_detected)
  next
    case False
    then have "\<not> probe_detected s" using read_probe_detected [of s t] by auto
    with False show ?thesis using Cons.IH [of "read_probe t s"] by simp
  qed
qed

text \<open>
  C1. Over every sequence of sampler runs: \<open>probe_detected\<close> goes from false to true
  only while \<open>probing\<close> is true, and the run that sets it has, in that same run, called
  \<open>stop_moving\<close> on every actuator (the trace grows by exactly these calls). A run with
  the session not armed, or already detected, or with none of X, Y, Z moving returns the
  state as it was, trace included. In any sequence of runs the flag is set at most once,
  and the sequence issues the stops once if it set the flag and not at all otherwise.
\<close>

theorem read_probe_detects_only_armed_after_stop:
  "(probe_detected (read_probe t s) \<and> \<not> probe_detected s \<longrightarrow>
      probing s \<and> trace (read_probe t s) = trace s @ map StopMoving [0..<n_actuators s])
   \<and> (probe_detected s \<or> \<not> probing s \<or> \<not> any_moving t \<longrightarrow> read_probe t s = s)
   \<and> (probe_detected (run_ticks ts s) \<and> \<not> probe_detected s \<longrightarrow> probing s)
   \<and> detections ts s \<le> 1
   \<and> trace (run_ticks ts s) =
       trace s @ (if probe_detected s then [] else if probe_detected (run_ticks ts s)
                  then map StopMoving [0..<n_actuators s] else [])"
proof -
  have a: "probe_detected (read_probe t s) \<and> \<not> probe_detected s \<longrightarrow>
      probing s \<and> trace (read_probe t s) = trace s @ map StopMoving [0..<n_actuators s]"
    by (simp add: read_probe_def stop_all_def)
  have b: "probe_detected s \<or> \<not> probing s \<or> \<not> any_moving t \<longrightarrow> read_probe t s = s"
    using read_probe_not_probing read_probe_detected read_probe_not_moving by blast
  have c: "probe_detected (run_ticks ts s) \<and> \<not> probe_detected s \<longrightarrow> probing s"
    by (cases "probing s") (simp_all add: run_ticks_not_probing)
  have d: "detections ts s \<le> 1" by (simp add: detections_eq)
  from a b c d run_ticks_trace [of ts s] show ?thesis by blast
qed


theorem read_probe_detects_only_armed_after_stop_witness:
  "probe_detected (read_probe hit (armed_probe\<lparr>debounce := 2\<rparr>))
   \<and> \<not> probe_detected (armed_probe\<lparr>debounce := 2\<rparr>)
   \<and> probing (armed_probe\<lparr>debounce := 2\<rparr>)
   \<and> trace (read_probe hit (armed_probe\<lparr>debounce := 2\<rparr>)) = [StopMoving 0, StopMoving 1, StopMoving 2]
   \<and> \<not> probing idle_probe
   \<and> read_probe hit idle_probe = idle_probe
   \<and> probe_detected (run_ticks [hit, hit, hit, hit, hit] armed_probe)
   \<and> detections [hit, hit, hit, hit, hit] armed_probe \<le> 1
   \<and> trace (run_ticks [hit, hit, hit, hit, hit] armed_probe) = [StopMoving 0, StopMoving 1, StopMoving 2]"
  using read_probe_detects_only_armed_after_stop [of hit "armed_probe\<lparr>debounce := 2\<rparr>" "[]"] read_probe_detects_only_armed_after_stop [of hit idle_probe "[]"]
    read_probe_detects_only_armed_after_stop [of hit armed_probe "[hit, hit, hit, hit, hit]"]
  by (simp add: read_probe_def stop_all_def armed_probe_def idle_probe_def hit_def any_moving_def
      upt_rec)

lemma run_ticks_append: "run_ticks (ts @ us) s = run_ticks us (run_ticks ts s)"
  by (induction ts arbitrary: s) simp_all

lemma run_ticks_counting:
  "probing s \<Longrightarrow> \<not> probe_detected s \<Longrightarrow> \<forall>tk\<in>set ts. any_moving tk \<and> pin_active tk \<Longrightarrow>
   debounce s + length ts \<le> debounce_ms s \<Longrightarrow>
   run_ticks ts s = s\<lparr>debounce := debounce s + length ts\<rparr>"
proof (induction ts arbitrary: s)
  case Nil
  then show ?case by simp
next
  case (Cons t ts)
  from Cons.prems have step: "read_probe t s = s\<lparr>debounce := debounce s + 1\<rparr>"
    by (simp add: read_probe_def)
  have "run_ticks ts (s\<lparr>debounce := debounce s + 1\<rparr>)
          = s\<lparr>debounce := debounce s + 1\<rparr>\<lparr>debounce := debounce (s\<lparr>debounce := debounce s + 1\<rparr>) + length ts\<rparr>"
    using Cons.prems by (intro Cons.IH) simp_all
  with step show ?case by simp
qed

lemma read_probe_confirm:
  "probing s \<Longrightarrow> \<not> probe_detected s \<Longrightarrow> any_moving t \<Longrightarrow> pin_active t \<Longrightarrow>
   debounce_ms s \<le> debounce s \<Longrightarrow>
   read_probe t s = (stop_all s)\<lparr>probe_detected := True, debounce := 0\<rparr>"
  by (simp add: read_probe_def)

lemma run_ticks_confirm:
  assumes "probing s" "\<not> probe_detected s" "\<forall>tk\<in>set ts. any_moving tk \<and> pin_active tk"
    and "debounce s \<le> debounce_ms s" and "debounce s + length ts = debounce_ms s + 1"
  shows "run_ticks ts s = (stop_all s)\<lparr>probe_detected := True, debounce := 0\<rparr>"
proof (cases ts rule: rev_cases)
  case Nil
  with assms show ?thesis by simp
next
  case (snoc us t)
  with assms have "run_ticks us s = s\<lparr>debounce := debounce s + length us\<rparr>"
    by (intro run_ticks_counting) simp_all
  moreover have "read_probe t (s\<lparr>debounce := debounce s + length us\<rparr>)
      = (stop_all (s\<lparr>debounce := debounce s + length us\<rparr>))\<lparr>probe_detected := True, debounce := 0\<rparr>"
    using assms snoc by (intro read_probe_confirm) simp_all
  ultimately show ?thesis using snoc by (simp add: run_ticks_append stop_all_def)
qed

text \<open>
  The debouncer as \<open>read_probe\<close> runs it, counted from the counter \<open>debounce s\<close>. In an
  armed, not yet detected session, over sampler runs that all see an axis moving and the
  pin active: as long as the counter with the new runs stays within the threshold
  \<open>debounce_ms s\<close> the runs only count (no detection, no stop), and the run that would
  take the counter past the threshold confirms: it stops every actuator, sets
  \<open>probe_detected\<close> and clears the counter. A run that sees the pin inactive clears the
  counter. With threshold 0 the first active sample confirms. How many active samples a
  session needs therefore depends on the counter it starts with.
\<close>

lemma run_ticks_counts_from_debounce:
  assumes "probing s" and "\<not> probe_detected s"
    and "\<forall>tk\<in>set ts. any_moving tk \<and> pin_active tk"
  shows "(debounce s + length ts \<le> debounce_ms s \<longrightarrow>
            run_ticks ts s = s\<lparr>debounce := debounce s + length ts\<rparr>)
       \<and> (debounce s \<le> debounce_ms s \<and> debounce s + length ts = debounce_ms s + 1 \<longrightarrow>
            run_ticks ts s = (stop_all s)\<lparr>probe_detected := True, debounce := 0\<rparr>)
       \<and> (any_moving t0 \<and> \<not> pin_active t0 \<longrightarrow> read_probe t0 s = s\<lparr>debounce := 0\<rparr>)
       \<and> (debounce_ms s = 0 \<and> any_moving t1 \<and> pin_active t1 \<longrightarrow>
            read_probe t1 s = (stop_all s)\<lparr>probe_detected := True, debounce := 0\<rparr>)"
proof -
  have a: "debounce s + length ts \<le> debounce_ms s \<longrightarrow>
            run_ticks ts s = s\<lparr>debounce := debounce s + length ts\<rparr>"
    using assms run_ticks_counting [of s ts] by simp
  have b: "debounce s \<le> debounce_ms s \<and> debounce s + length ts = debounce_ms s + 1 \<longrightarrow>
            run_ticks ts s = (stop_all s)\<lparr>probe_detected := True, debounce := 0\<rparr>"
    using assms run_ticks_confirm [of s ts] by simp
  have c: "any_moving t0 \<and> \<not> pin_active t0 \<longrightarrow> read_probe t0 s = s\<lparr>debounce := 0\<rparr>"
    using assms by (simp add: read_probe_def)
  have d: "debounce_ms s = 0 \<and> any_moving t1 \<and> pin_active t1 \<longrightarrow>
            read_probe t1 s = (stop_all s)\<lparr>probe_detected := True, debounce := 0\<rparr>"
    using assms by (simp add: read_probe_def)
  from a b c d show ?thesis by blast
qed

lemma run_ticks_counts_from_debounce_example:
  "probing armed_probe \<and> \<not> probe_detected armed_probe \<and> debounce armed_probe = 0
   \<and> debounce_ms armed_probe = 2
   \<and> run_ticks [hit, hit] armed_probe = armed_probe\<lparr>debounce := 2\<rparr>
   \<and> run_ticks [hit, hit, hit] armed_probe
       = armed_probe\<lparr>probe_detected := True, trace := [StopMoving 0, StopMoving 1, StopMoving 2]\<rparr>
   \<and> read_probe miss (armed_probe\<lparr>debounce := 1\<rparr>) = armed_probe
   \<and> read_probe hit (armed_probe\<lparr>debounce_ms := 0\<rparr>)
       = armed_probe\<lparr>debounce_ms := 0, probe_detected := True,
                     trace := [StopMoving 0, StopMoving 1, StopMoving 2]\<rparr>"
  using run_ticks_counts_from_debounce [of armed_probe "[hit, hit]" miss hit]
    run_ticks_counts_from_debounce [of armed_probe "[hit, hit, hit]" miss hit]
    run_ticks_counts_from_debounce [of "armed_probe\<lparr>debounce := 1\<rparr>" "[]" miss hit]
    run_ticks_counts_from_debounce [of "armed_probe\<lparr>debounce_ms := 0\<rparr>" "[]" miss hit]
  by (simp add: stop_all_def armed_probe_def idle_probe_def hit_def miss_def any_moving_def
      upt_rec)

section \<open>Properties of the command half\<close>

subsection \<open>Traces of the blocking calls and the moves\<close>

lemma emit_fields:
  "trace (emit ev s) = trace s @ [ev]"
  "probing (emit ev s) = probing s"
  "probe_detected (emit ev s) = probe_detected s"
  "debounce (emit ev s) = debounce s"
  "debounce_ms (emit ev s) = debounce_ms s"
  "slow_feedrate (emit ev s) = slow_feedrate s"
  "fast_feedrate (emit ev s) = fast_feedrate s"
  "return_feedrate (emit ev s) = return_feedrate s"
  "max_z (emit ev s) = max_z s"
  "reverse_z (emit ev s) = reverse_z s"
  "dwell_before_probing (emit ev s) = dwell_before_probing s"
  "n_actuators (emit ev s) = n_actuators s"
  by (simp_all add: emit_def)

lemma read_probe_config:
  "debounce_ms (read_probe t s) = debounce_ms s"
  "slow_feedrate (read_probe t s) = slow_feedrate s"
  "fast_feedrate (read_probe t s) = fast_feedrate s"
  "return_feedrate (read_probe t s) = return_feedrate s"
  "max_z (read_probe t s) = max_z s"
  "reverse_z (read_probe t s) = reverse_z s"
  "dwell_before_probing (read_probe t s) = dwell_before_probing s"
  "n_actuators (read_probe t s) = n_actuators s"
  by (simp_all add: read_probe_def stop_all_def)

lemma run_ticks_config:
  "debounce_ms (run_ticks ts s) = debounce_ms s"
  "slow_feedrate (run_ticks ts s) = slow_feedrate s"
  "fast_feedrate (run_ticks ts s) = fast_feedrate s"
  "return_feedrate (run_ticks ts s) = return_feedrate s"
  "max_z (run_ticks ts s) = max_z s"
  "reverse_z (run_ticks ts s) = reverse_z s"
  "dwell_before_probing (run_ticks ts s) = dwell_before_probing s"
  "n_actuators (run_ticks ts s) = n_actuators s"
  by (induction ts arbitrary: s) (simp_all add: read_probe_config)

lemma commands_append: "commands (xs @ ys) = commands xs @ commands ys"
  by (simp add: commands_def)

lemma commands_stops: "commands (map StopMoving ns) = []"
  by (induction ns) (simp_all add: commands_def)

lemma run_ticks_commands: "commands (trace (run_ticks ts s)) = commands (trace s)"
  by (subst run_ticks_trace) (simp add: commands_append commands_stops, simp add: commands_def)

lemma wait_for_idle_commands:
  "commands (trace (wait_for_idle ts s)) = commands (trace s) @ [WaitForIdle]"
  by (simp add: wait_for_idle_def run_ticks_commands emit_fields commands_append)
     (simp add: commands_def)

lemma safe_sleep_commands:
  "commands (trace (safe_sleep ts ms s)) = commands (trace s) @ [SafeSleep ms]"
  by (simp add: safe_sleep_def run_ticks_commands emit_fields commands_append)
     (simp add: commands_def)

lemma wait_for_idle_fields:
  "probing (wait_for_idle ts s) = probing s"
  "debounce_ms (wait_for_idle ts s) = debounce_ms s"
  "slow_feedrate (wait_for_idle ts s) = slow_feedrate s"
  "fast_feedrate (wait_for_idle ts s) = fast_feedrate s"
  "return_feedrate (wait_for_idle ts s) = return_feedrate s"
  "max_z (wait_for_idle ts s) = max_z s"
  "reverse_z (wait_for_idle ts s) = reverse_z s"
  "dwell_before_probing (wait_for_idle ts s) = dwell_before_probing s"
  "n_actuators (wait_for_idle ts s) = n_actuators s"
  by (simp_all add: wait_for_idle_def run_ticks_probing run_ticks_config emit_fields)

lemma safe_sleep_fields:
  "probing (safe_sleep ts ms s) = probing s"
  "debounce_ms (safe_sleep ts ms s) = debounce_ms s"
  "slow_feedrate (safe_sleep ts ms s) = slow_feedrate s"
  "fast_feedrate (safe_sleep ts ms s) = fast_feedrate s"
  "return_feedrate (safe_sleep ts ms s) = return_feedrate s"
  "max_z (safe_sleep ts ms s) = max_z s"
  "reverse_z (safe_sleep ts ms s) = reverse_z s"
  "dwell_before_probing (safe_sleep ts ms s) = dwell_before_probing s"
  "n_actuators (safe_sleep ts ms s) = n_actuators s"
  by (simp_all add: safe_sleep_def run_ticks_probing run_ticks_config emit_fields)

lemma move_x_trace:
  "trace (move_x x feedrate relative s) =
     trace s @ [PushState, SetAbsoluteMode (\<not> relative), SetNextCommandIsMCS True,
                Dispatch (CHR ''G'') 0 [(CHR ''X'', x), (CHR ''F'', feedrate * 60)], PopState]"
  by (simp add: move_x_def Let_def emit_fields)

lemma move_y_commands:
  "commands (trace (move_y ts y feedrate relative s)) =
     commands (trace s) @ [PushState, SetAbsoluteMode (\<not> relative), SetNextCommandIsMCS True,
                Dispatch (CHR ''G'') 0 [(CHR ''Y'', y), (CHR ''F'', feedrate * 60)],
                WaitForIdle, PopState]"
  by (simp add: move_y_def Let_def emit_fields commands_append wait_for_idle_commands)
     (simp add: commands_def)

lemma move_z_commands:
  "commands (trace (move_z ts z feedrate relative s)) =
     commands (trace s) @ [PushState, SetAbsoluteMode (\<not> relative), SetNextCommandIsMCS True,
                Dispatch (CHR ''G'') 0 [(CHR ''Z'', z), (CHR ''F'', feedrate * 60)],
                WaitForIdle, PopState]"
  by (simp add: move_z_def Let_def emit_fields commands_append wait_for_idle_commands)
     (simp add: commands_def)


lemma run_probe_commands:
  assumes "\<not> pin_get e"
  shows "commands (trace (snd (run_probe e mm f md rv s))) =
     commands (trace s)
       @ (if dwell_before_probing s > 1 / 10000 then [SafeSleep (dwell_before_probing s * 1000)]
          else [])
       @ [DeltaMove [0, 0, if reverse_z s = rv then - (if md < 0 then max_z s * 2 else md)
                           else (if md < 0 then max_z s * 2 else md)] f 3,
          WaitForIdle,
          SetLastProbePosition 0 0 (z_start_pos e - z_end_pos e)
            (if fst (fst (run_probe e mm f md rv s)) then 1 else 0)]
       @ (if fst (fst (run_probe e mm f md rv s))
          then [ResetPositionFromCurrentActuatorPosition] else [])"
  using assms
  by (simp add: run_probe_def Let_def emit_fields commands_append wait_for_idle_commands
        safe_sleep_commands wait_for_idle_fields safe_sleep_fields)
     (simp add: commands_def)

lemma move_x_commands:
  "commands (trace (move_x x feedrate relative s)) =
     commands (trace s) @ [PushState, SetAbsoluteMode (\<not> relative), SetNextCommandIsMCS True,
                Dispatch (CHR ''G'') 0 [(CHR ''X'', x), (CHR ''F'', feedrate * 60)], PopState]"
  by (simp add: move_x_trace commands_append) (simp add: commands_def)

lemma filter_commands:
  "(\<And>ev. P ev \<Longrightarrow> \<not> is_stop ev) \<Longrightarrow> filter P (commands tr) = filter P tr"
  unfolding commands_def by (induction tr) auto


lemma moves_commands: "moves (commands tr) = moves tr"
  unfolding moves_def by (rule filter_commands) auto

lemma moves_append: "moves (xs @ ys) = moves xs @ moves ys"
  by (simp add: moves_def)



lemma probe_XYZ_commands:
  "commands (trace (probe_XYZ e g axis s)) =
     commands (trace s) @ [SetDisableSegmentation True]
       @ (if axis = X_AXIS then
            [PushState, SetAbsoluteMode False, SetNextCommandIsMCS True,
             Dispatch (CHR ''G'') 0
               [(CHR ''X'', get_arg g (CHR ''X'')),
                (CHR ''F'', (if has_arg g (CHR ''F'') then get_arg g (CHR ''F'') / 60
                             else slow_feedrate s) * 60)],
             PopState]
          else if axis = Y_AXIS then
            [PushState, SetAbsoluteMode False, SetNextCommandIsMCS True,
             Dispatch (CHR ''G'') 0
               [(CHR ''Y'', get_arg g (CHR ''Y'')),
                (CHR ''F'', (if has_arg g (CHR ''F'') then get_arg g (CHR ''F'') / 60
                             else slow_feedrate s) * 60)],
             WaitForIdle, PopState]
          else if axis = Z_AXIS then
            [PushState, SetAbsoluteMode False, SetNextCommandIsMCS True,
             Dispatch (CHR ''G'') 0
               [(CHR ''Z'', get_arg g (CHR ''Z'')),
                (CHR ''F'', (if has_arg g (CHR ''F'') then get_arg g (CHR ''F'') / 60
                             else slow_feedrate s) * 60)],
             WaitForIdle, PopState]
          else [])
       @ [SetDisableSegmentation False, ResetPositionFromCurrentActuatorPosition,
          Printf (''[PRB:%1.3f,%1.3f,%1.3f:%d]'' @ nl)
            [F (fst (axis_pos e)), F (fst (snd (axis_pos e))), F (snd (snd (axis_pos e))),
             I (if probe_detected (probe_XYZ e g axis s) then 1 else 0)],
          SetLastProbePosition (fst (axis_pos e)) (fst (snd (axis_pos e))) (snd (snd (axis_pos e)))
            (if probe_detected (probe_XYZ e g axis s) then 1 else 0)]
       @ (if \<not> probe_detected (probe_XYZ e g axis s) \<and> get_subcode g = 2
          then [Printf (''ALARM: Probe fail'' @ nl) [], BroadcastHalt True] else [])"
  by (simp add: probe_XYZ_def Let_def split_beta emit_fields commands_append
        move_x_commands move_y_commands move_z_commands)
     (simp add: commands_def)

lemma run_probe_config:
  "slow_feedrate (snd (run_probe e mm f md rv s)) = slow_feedrate s"
  "fast_feedrate (snd (run_probe e mm f md rv s)) = fast_feedrate s"
  "return_feedrate (snd (run_probe e mm f md rv s)) = return_feedrate s"
  by (simp_all add: run_probe_def Let_def emit_fields wait_for_idle_fields safe_sleep_fields)

subsection \<open>What the sampler sees of a session\<close>

lemma read_probe_session:
  "probing s = probing s' \<Longrightarrow> probe_detected s = probe_detected s' \<Longrightarrow>
   debounce s = debounce s' \<Longrightarrow> debounce_ms s = debounce_ms s' \<Longrightarrow>
   probing (read_probe t s) = probing (read_probe t s')
   \<and> probe_detected (read_probe t s) = probe_detected (read_probe t s')
   \<and> debounce (read_probe t s) = debounce (read_probe t s')
   \<and> debounce_ms (read_probe t s) = debounce_ms (read_probe t s')"
  by (simp add: read_probe_def stop_all_def)

lemma run_ticks_session:
  "probing s = probing s' \<Longrightarrow> probe_detected s = probe_detected s' \<Longrightarrow>
   debounce s = debounce s' \<Longrightarrow> debounce_ms s = debounce_ms s' \<Longrightarrow>
   probe_detected (run_ticks ts s) = probe_detected (run_ticks ts s')
   \<and> debounce (run_ticks ts s) = debounce (run_ticks ts s')"
proof (induction ts arbitrary: s s')
  case Nil
  then show ?case by simp
next
  case (Cons t ts)
  from read_probe_session [OF Cons.prems, of t]
  have "probe_detected (run_ticks ts (read_probe t s)) = probe_detected (run_ticks ts (read_probe t s'))
      \<and> debounce (run_ticks ts (read_probe t s)) = debounce (run_ticks ts (read_probe t s'))"
    by (intro Cons.IH) simp_all
  then show ?case by simp
qed

lemma wait_for_idle_session:
  "probe_detected (wait_for_idle ts s) = probe_detected (run_ticks ts s)"
  "debounce (wait_for_idle ts s) = debounce (run_ticks ts s)"
proof -
  have "probe_detected (run_ticks ts (emit WaitForIdle s)) = probe_detected (run_ticks ts s)
      \<and> debounce (run_ticks ts (emit WaitForIdle s)) = debounce (run_ticks ts s)"
    by (intro run_ticks_session) (simp_all add: emit_fields)
  then show "probe_detected (wait_for_idle ts s) = probe_detected (run_ticks ts s)"
    and "debounce (wait_for_idle ts s) = debounce (run_ticks ts s)"
    by (simp_all add: wait_for_idle_def)
qed

lemma run_ticks_emit_session:
  "probe_detected (run_ticks ts (emit ev s)) = probe_detected (run_ticks ts s)"
  "debounce (run_ticks ts (emit ev s)) = debounce (run_ticks ts s)"
proof -
  have "probe_detected (run_ticks ts (emit ev s)) = probe_detected (run_ticks ts s)
      \<and> debounce (run_ticks ts (emit ev s)) = debounce (run_ticks ts s)"
    by (intro run_ticks_session) (simp_all add: emit_fields)
  then show "probe_detected (run_ticks ts (emit ev s)) = probe_detected (run_ticks ts s)"
    and "debounce (run_ticks ts (emit ev s)) = debounce (run_ticks ts s)"
    by simp_all
qed

lemma probe_XYZ_session:
  "probe_detected (probe_XYZ e g axis s)
     = probe_detected (run_ticks (if axis = Y_AXIS \<or> axis = Z_AXIS then probe_ticks e else [])
         (s\<lparr>probing := True, probe_detected := False\<rparr>))"
  "debounce (probe_XYZ e g axis s)
     = debounce (run_ticks (if axis = Y_AXIS \<or> axis = Z_AXIS then probe_ticks e else [])
         (s\<lparr>probing := True, probe_detected := False\<rparr>))"
  by (simp_all add: probe_XYZ_def Let_def split_beta emit_fields move_x_def move_y_def move_z_def
      wait_for_idle_session run_ticks_emit_session X_AXIS_def Y_AXIS_def Z_AXIS_def)

lemma run_probe_session:
  assumes "\<not> pin_get e"
  shows "probe_detected (snd (run_probe e mm f md rv s))
     = probe_detected (run_ticks
         ((if dwell_before_probing s > 1 / 10000 then sleep_ticks e else []) @ probe_ticks e)
         (s\<lparr>probing := True, probe_detected := False, debounce := 0\<rparr>))"
    and "debounce (snd (run_probe e mm f md rv s))
     = debounce (run_ticks
         ((if dwell_before_probing s > 1 / 10000 then sleep_ticks e else []) @ probe_ticks e)
         (s\<lparr>probing := True, probe_detected := False, debounce := 0\<rparr>))"
proof -
  let ?a = "s\<lparr>probing := True, probe_detected := False, debounce := 0\<rparr>"
  have sl: "probe_detected (run_ticks us (emit ev (run_ticks ts (emit ev' ?a))))
              = probe_detected (run_ticks (ts @ us) ?a)
          \<and> debounce (run_ticks us (emit ev (run_ticks ts (emit ev' ?a))))
              = debounce (run_ticks (ts @ us) ?a)" for us ts ev ev'
  proof -
    have "probing (run_ticks ts (emit ev' ?a)) = probing (run_ticks ts ?a)"
      by (simp add: run_ticks_probing emit_fields)
    moreover have "debounce_ms (run_ticks ts (emit ev' ?a)) = debounce_ms (run_ticks ts ?a)"
      by (simp add: run_ticks_config emit_fields)
    ultimately show ?thesis
      using run_ticks_session [of "emit ev (run_ticks ts (emit ev' ?a))" "run_ticks ts ?a" us]
      by (simp add: emit_fields run_ticks_emit_session run_ticks_append)
  qed
  show "probe_detected (snd (run_probe e mm f md rv s))
     = probe_detected (run_ticks
         ((if dwell_before_probing s > 1 / 10000 then sleep_ticks e else []) @ probe_ticks e) ?a)"
    using assms sl [of "probe_ticks e" _ "sleep_ticks e"]
    by (simp add: run_probe_def Let_def emit_fields wait_for_idle_def safe_sleep_def
        run_ticks_emit_session)
  show "debounce (snd (run_probe e mm f md rv s))
     = debounce (run_ticks
         ((if dwell_before_probing s > 1 / 10000 then sleep_ticks e else []) @ probe_ticks e) ?a)"
    using assms sl [of "probe_ticks e" _ "sleep_ticks e"]
    by (simp add: run_probe_def Let_def emit_fields wait_for_idle_def safe_sleep_def
        run_ticks_emit_session)
qed

subsection \<open>The claims\<close>

text \<open>
  C2. The claim asks that, in an armed session with an axis moving and threshold \<open>t\<close>,
  the sampler confirms on the \<open>(t+1)\<close>-th consecutive active sample and not before.
  \<open>run_probe\<close> starts its session with \<open>debounce = 0\<close>; \<open>probe_XYZ\<close> arms without
  it. With threshold 2: a \<open>run_probe\<close> whose samples read inactive, active, active ends
  undetected with the counter at 2. The pin then reads inactive at the entry check of
  \<open>G38.3 Z-5\<close>, and the first sample of that straight probe, the only active one, confirms:
  every actuator is stopped and the report carries the flag 1.
\<close>

theorem probe_XYZ_confirms_before_threshold:
  "debounce_ms idle_probe = 2
   \<and> \<not> fst (fst (run_probe (quiet_env\<lparr>probe_ticks := [miss, hit, hit]\<rparr>) 0 5 (- 1) False idle_probe))
   \<and> snd (run_probe (quiet_env\<lparr>probe_ticks := [miss, hit, hit]\<rparr>) 0 5 (- 1) False idle_probe)
       = idle_probe\<lparr>debounce := 2,
           trace := [DeltaMove [0, 0, - 200] 5 3, WaitForIdle, SetLastProbePosition 0 0 2 0]\<rparr>
   \<and> \<not> pin_get_cmd (quiet_env\<lparr>probe_ticks := [hit]\<rparr>)
   \<and> (case handle_gcode (quiet_env\<lparr>probe_ticks := [hit]\<rparr>) (gcode_of 38 3 [(CHR ''Z'', - 5)])
              (snd (run_probe (quiet_env\<lparr>probe_ticks := [miss, hit, hit]\<rparr>) 0 5 (- 1) False idle_probe)) of
         Inl fl \<Rightarrow> False
       | Inr (handled, s') \<Rightarrow>
           handled \<and> probe_detected s' \<and> debounce s' = 0
           \<and> filter is_stop (trace s') = [StopMoving 0, StopMoving 1, StopMoving 2]
           \<and> filter is_printf (trace s')
               = [Printf (''[PRB:%1.3f,%1.3f,%1.3f:%d]'' @ nl) [F 1, F 2, F 8, I 1]])"
proof -
  have first: "run_probe (quiet_env\<lparr>probe_ticks := [miss, hit, hit]\<rparr>) 0 5 (- 1) False idle_probe
       = ((False, 2), idle_probe\<lparr>debounce := 2,
           trace := [DeltaMove [0, 0, - 200] 5 3, WaitForIdle, SetLastProbePosition 0 0 2 0]\<rparr>)"
    by (simp add: run_probe_def Let_def wait_for_idle_def emit_def read_probe_def quiet_env_def
        idle_probe_def hit_def miss_def any_moving_def)
  have second: "handle_gcode (quiet_env\<lparr>probe_ticks := [hit]\<rparr>) (gcode_of 38 3 [(CHR ''Z'', - 5)])
       (idle_probe\<lparr>debounce := 2,
           trace := [DeltaMove [0, 0, - 200] 5 3, WaitForIdle, SetLastProbePosition 0 0 2 0]\<rparr>)
     = Inr (True, idle_probe\<lparr>probe_detected := True,
           trace := [DeltaMove [0, 0, - 200] 5 3, WaitForIdle, SetLastProbePosition 0 0 2 0,
                     WaitForIdle, SetDisableSegmentation True, PushState, SetAbsoluteMode False,
                     SetNextCommandIsMCS True,
                     Dispatch (CHR ''G'') 0 [(CHR ''Z'', - 5), (CHR ''F'', 300)], WaitForIdle,
                     StopMoving 0, StopMoving 1, StopMoving 2, PopState,
                     SetDisableSegmentation False, ResetPositionFromCurrentActuatorPosition,
                     Printf (''[PRB:%1.3f,%1.3f,%1.3f:%d]'' @ nl) [F 1, F 2, F 8, I 1],
                     SetLastProbePosition 1 2 8 1]\<rparr>)"
    by (simp add: handle_gcode_def probe_XYZ_def move_z_def Let_def wait_for_idle_def emit_def
        read_probe_def stop_all_def gcode_of_def quiet_env_def idle_probe_def hit_def
        any_moving_def X_AXIS_def Y_AXIS_def Z_AXIS_def upt_rec)
  from first have r1:
    "\<not> fst (fst (run_probe (quiet_env\<lparr>probe_ticks := [miss, hit, hit]\<rparr>) 0 5 (- 1) False idle_probe))"
    by simp
  from first have s1:
    "snd (run_probe (quiet_env\<lparr>probe_ticks := [miss, hit, hit]\<rparr>) 0 5 (- 1) False idle_probe)
       = idle_probe\<lparr>debounce := 2,
           trace := [DeltaMove [0, 0, - 200] 5 3, WaitForIdle, SetLastProbePosition 0 0 2 0]\<rparr>"
    by simp
  have cfg: "debounce_ms idle_probe = 2" "debounce idle_probe = 0"
    "\<not> pin_get_cmd (quiet_env\<lparr>probe_ticks := [hit]\<rparr>)"
    by (simp_all add: idle_probe_def quiet_env_def)
  show ?thesis
    unfolding s1 second using r1 cfg by simp
qed

text \<open>
  C3 (amended). When \<open>pin.get()\<close> is true at the entry of \<open>run_probe\<close>, the call
  returns false at once and changes nothing: the session is not armed (\<open>probing\<close> is
  as it was), no move and no stop is issued (the trace is as it was), no distance is
  recorded, and the output parameter \<open>mm\<close> holds what the caller passed in.
\<close>

theorem run_probe_aborts_when_pin_active:
  "pin_get e \<Longrightarrow>
     run_probe e mm f md rv s = ((False, mm), s)
     \<and> probing (snd (run_probe e mm f md rv s)) = probing s
     \<and> trace (snd (run_probe e mm f md rv s)) = trace s"
  by (simp add: run_probe_def)

theorem run_probe_aborts_when_pin_active_witness:
  "pin_get (quiet_env\<lparr>pin_get := True\<rparr>)
   \<and> run_probe (quiet_env\<lparr>pin_get := True\<rparr>) 5 1 (- 1) False idle_probe = ((False, 5), idle_probe)
   \<and> \<not> probing (snd (run_probe (quiet_env\<lparr>pin_get := True\<rparr>) 5 1 (- 1) False idle_probe))
   \<and> trace (snd (run_probe (quiet_env\<lparr>pin_get := True\<rparr>) 5 1 (- 1) False idle_probe)) = []"
  using run_probe_aborts_when_pin_active [of "quiet_env\<lparr>pin_get := True\<rparr>" 5 1 "- 1" False idle_probe]
  by (simp add: quiet_env_def idle_probe_def)

text \<open>
  C3, as the spec words it, asks for a zero distance in the output parameter. The early
  return writes nothing to \<open>mm\<close>: a caller's 5 is still 5 after the call.
\<close>

theorem run_probe_abort_leaves_mm_unwritten:
  "pin_get (quiet_env\<lparr>pin_get := True\<rparr>)
   \<and> snd (fst (run_probe (quiet_env\<lparr>pin_get := True\<rparr>) 5 1 (- 1) False idle_probe)) = 5
   \<and> snd (fst (run_probe (quiet_env\<lparr>pin_get := True\<rparr>) 5 1 (- 1) False idle_probe)) \<noteq> 0"
  by (simp add: run_probe_def quiet_env_def)


text \<open>
  C5. What the three helpers do, for every target, feedrate and mode. \<open>move_y\<close> and
  \<open>move_z\<close> push the state, set the mode and the machine-coordinate flag, dispatch one
  \<open>G0\<close>, wait for idle and then pop. \<open>move_x\<close> pops right after the dispatch: its
  trace has no \<open>wait_for_idle\<close>.
\<close>

theorem move_x_pops_without_waiting:
  "trace (move_x x f relative s) =
     trace s @ [PushState, SetAbsoluteMode (\<not> relative), SetNextCommandIsMCS True,
                Dispatch (CHR ''G'') 0 [(CHR ''X'', x), (CHR ''F'', f * 60)], PopState]
   \<and> commands (trace (move_y ts x f relative s)) =
     commands (trace s) @ [PushState, SetAbsoluteMode (\<not> relative), SetNextCommandIsMCS True,
                Dispatch (CHR ''G'') 0 [(CHR ''Y'', x), (CHR ''F'', f * 60)],
                WaitForIdle, PopState]
   \<and> commands (trace (move_z ts x f relative s)) =
     commands (trace s) @ [PushState, SetAbsoluteMode (\<not> relative), SetNextCommandIsMCS True,
                Dispatch (CHR ''G'') 0 [(CHR ''Z'', x), (CHR ''F'', f * 60)],
                WaitForIdle, PopState]"
  by (simp add: move_x_trace move_y_commands move_z_commands)

text \<open>
  C6. A \<open>run_probe\<close> that passes its entry check issues exactly one motion request, a
  \<open>delta_move\<close> whose X and Y deltas are 0. The Z delta has the magnitude of twice
  \<open>max_z\<close> when \<open>max_dist\<close> is negative (the sentinel) and of \<open>max_dist\<close> otherwise;
  it is positive when \<open>reverse_z\<close> and the \<open>reverse\<close> argument differ and negative when
  they agree. So for a fixed configuration the call with \<open>reverse\<close> set issues the
  negated delta of the call with \<open>reverse\<close> clear.
\<close>

theorem run_probe_move_is_signed_z:
  assumes "\<not> pin_get e"
  shows "moves (trace (snd (run_probe e mm f md rv s))) =
           moves (trace s)
             @ [DeltaMove [0, 0, (if reverse_z s \<noteq> rv then 1 else - 1)
                                   * (if md < 0 then 2 * max_z s else md)] f 3]
       \<and> (\<exists>dz. moves (trace (snd (run_probe e mm f md False s)))
                   = moves (trace s) @ [DeltaMove [0, 0, dz] f 3]
              \<and> moves (trace (snd (run_probe e mm f md True s)))
                   = moves (trace s) @ [DeltaMove [0, 0, - dz] f 3])"
proof -
  have m: "moves (trace (snd (run_probe e mm f md r s))) =
           moves (trace s)
             @ [DeltaMove [0, 0, (if reverse_z s \<noteq> r then 1 else - 1)
                                   * (if md < 0 then 2 * max_z s else md)] f 3]" for r
  proof -
    have "moves (trace (snd (run_probe e mm f md r s)))
        = moves (commands (trace (snd (run_probe e mm f md r s))))"
      by (simp add: moves_commands)
    also have "\<dots> = moves (commands (trace s))
             @ [DeltaMove [0, 0, (if reverse_z s \<noteq> r then 1 else - 1)
                                   * (if md < 0 then 2 * max_z s else md)] f 3]"
      by (simp add: run_probe_commands [OF assms] moves_append) (simp add: moves_def)
    finally show ?thesis by (simp add: moves_commands)
  qed
  define dz where "dz = (if reverse_z s then 1 else - 1) * (if md < 0 then 2 * max_z s else md)"
  have e1: "(if reverse_z s \<noteq> False then 1 else - 1) * (if md < 0 then 2 * max_z s else md) = dz"
    unfolding dz_def by (cases "reverse_z s") simp_all
  have e2: "(if reverse_z s \<noteq> True then 1 else - 1) * (if md < 0 then 2 * max_z s else md) = - dz"
    unfolding dz_def by (cases "reverse_z s") simp_all
  have f1: "moves (trace (snd (run_probe e mm f md False s)))
              = moves (trace s) @ [DeltaMove [0, 0, dz] f 3]"
    unfolding m [of False] e1 by (rule refl)
  have f2: "moves (trace (snd (run_probe e mm f md True s)))
              = moves (trace s) @ [DeltaMove [0, 0, - dz] f 3]"
    unfolding m [of True] e2 by (rule refl)
  from f1 f2 have "\<exists>dz. moves (trace (snd (run_probe e mm f md False s)))
                   = moves (trace s) @ [DeltaMove [0, 0, dz] f 3]
              \<and> moves (trace (snd (run_probe e mm f md True s)))
                   = moves (trace s) @ [DeltaMove [0, 0, - dz] f 3]"
    by blast
  with m [of rv] show ?thesis by blast
qed

theorem run_probe_move_is_signed_z_witness:
  "\<not> pin_get quiet_env
   \<and> moves (trace (snd (run_probe quiet_env 0 5 (- 1) False idle_probe)))
       = [DeltaMove [0, 0, - 200] 5 3]
   \<and> moves (trace (snd (run_probe quiet_env 0 5 (- 1) True idle_probe)))
       = [DeltaMove [0, 0, 200] 5 3]
   \<and> moves (trace (snd (run_probe quiet_env 0 5 30 False (idle_probe\<lparr>reverse_z := True\<rparr>))))
       = [DeltaMove [0, 0, 30] 5 3]"
  using run_probe_move_is_signed_z [of quiet_env 0 5 "- 1" False idle_probe] run_probe_move_is_signed_z [of quiet_env 0 5 "- 1" True idle_probe]
    run_probe_move_is_signed_z [of quiet_env 0 5 30 False "idle_probe\<lparr>reverse_z := True\<rparr>"]
  by (simp add: quiet_env_def idle_probe_def moves_def)

text \<open>
  C7. \<open>run_probe_return\<close> returns the boolean of its inner \<open>run_probe\<close>, and after
  the calls of that \<open>run_probe\<close> (whatever it returned) it issues the \<open>move_z\<close>
  sequence in absolute mode to \<open>axis_z\<close>, the Z position read before probing. The
  feedrate handed to \<open>move_z\<close> is \<open>return_feedrate\<close> when that is not 0, else the
  smaller of twice \<open>slow_feedrate\<close> and \<open>fast_feedrate\<close>; \<open>move_z\<close> dispatches it
  in mm/min.
\<close>

theorem run_probe_return_moves_back:
  "fst (fst (run_probe_return e mm f md rv s)) = fst (fst (run_probe e mm f md rv s))
   \<and> commands (trace (snd (run_probe_return e mm f md rv s))) =
       commands (trace (snd (run_probe e mm f md rv s)))
         @ [PushState, SetAbsoluteMode True, SetNextCommandIsMCS True,
            Dispatch (CHR ''G'') 0
              [(CHR ''Z'', axis_z e),
               (CHR ''F'', (if return_feedrate s \<noteq> 0 then return_feedrate s
                            else min (2 * slow_feedrate s) (fast_feedrate s)) * 60)],
            WaitForIdle, PopState]"
  by (simp add: run_probe_return_def Let_def split_beta move_z_commands run_probe_config min_def)

text \<open>
  C8. Every \<open>probe_XYZ\<close> prints one report with the format
  \<open>[PRB:%1.3f,%1.3f,%1.3f:%d]\<close>, the three machine coordinates and the flag (1 when
  \<open>probe_detected\<close>, else 0). It prints \<open>ALARM: Probe fail\<close> and calls
  \<open>broadcast_halt(true)\<close> exactly when the flag is 0 and the subcode is 2; with subcode 3
  it never halts.
\<close>

theorem probe_XYZ_report_and_alarm:
  "filter is_printf (trace (probe_XYZ e g axis s)) =
     filter is_printf (trace s)
       @ [Printf (''[PRB:%1.3f,%1.3f,%1.3f:%d]'' @ nl)
            [F (fst (axis_pos e)), F (fst (snd (axis_pos e))), F (snd (snd (axis_pos e))),
             I (if probe_detected (probe_XYZ e g axis s) then 1 else 0)]]
       @ (if \<not> probe_detected (probe_XYZ e g axis s) \<and> get_subcode g = 2
          then [Printf (''ALARM: Probe fail'' @ nl) []] else [])
   \<and> filter is_halt (trace (probe_XYZ e g axis s)) =
     filter is_halt (trace s)
       @ (if \<not> probe_detected (probe_XYZ e g axis s) \<and> get_subcode g = 2
          then [BroadcastHalt True] else [])
   \<and> (get_subcode g = 3 \<longrightarrow>
        filter is_halt (trace (probe_XYZ e g axis s)) = filter is_halt (trace s))"
proof -
  have p: "filter is_printf (trace t) = filter is_printf (commands (trace t))" for t
    by (rule filter_commands [symmetric]) auto
  have h: "filter is_halt (trace t) = filter is_halt (commands (trace t))" for t
    by (rule filter_commands [symmetric]) auto
  have a: "filter is_printf (commands (trace (probe_XYZ e g axis s))) =
     filter is_printf (commands (trace s))
       @ [Printf (''[PRB:%1.3f,%1.3f,%1.3f:%d]'' @ nl)
            [F (fst (axis_pos e)), F (fst (snd (axis_pos e))), F (snd (snd (axis_pos e))),
             I (if probe_detected (probe_XYZ e g axis s) then 1 else 0)]]
       @ (if \<not> probe_detected (probe_XYZ e g axis s) \<and> get_subcode g = 2
          then [Printf (''ALARM: Probe fail'' @ nl) []] else [])"
    by (subst probe_XYZ_commands) simp
  have b: "filter is_halt (commands (trace (probe_XYZ e g axis s))) =
     filter is_halt (commands (trace s))
       @ (if \<not> probe_detected (probe_XYZ e g axis s) \<and> get_subcode g = 2
          then [BroadcastHalt True] else [])"
    by (subst probe_XYZ_commands) simp
  from a b show ?thesis
    unfolding p [of "probe_XYZ e g axis s"] p [of s] h [of "probe_XYZ e g axis s"] h [of s]
    by simp
qed

theorem probe_XYZ_report_and_alarm_witness:
  "get_subcode (gcode_of 38 3 [(CHR ''Z'', - 5)]) = 3
   \<and> filter is_printf (trace (probe_XYZ quiet_env (gcode_of 38 3 [(CHR ''Z'', - 5)]) Z_AXIS idle_probe))
       = [Printf (''[PRB:%1.3f,%1.3f,%1.3f:%d]'' @ nl) [F 1, F 2, F 8, I 0]]
   \<and> filter is_halt (trace (probe_XYZ quiet_env (gcode_of 38 3 [(CHR ''Z'', - 5)]) Z_AXIS idle_probe)) = []
   \<and> filter is_printf (trace (probe_XYZ quiet_env (gcode_of 38 2 [(CHR ''Z'', - 5)]) Z_AXIS idle_probe))
       = [Printf (''[PRB:%1.3f,%1.3f,%1.3f:%d]'' @ nl) [F 1, F 2, F 8, I 0],
          Printf (''ALARM: Probe fail'' @ nl) []]
   \<and> filter is_halt (trace (probe_XYZ quiet_env (gcode_of 38 2 [(CHR ''Z'', - 5)]) Z_AXIS idle_probe))
       = [BroadcastHalt True]"
  using probe_XYZ_report_and_alarm [of quiet_env "gcode_of 38 3 [(CHR ''Z'', - 5)]" Z_AXIS idle_probe]
    probe_XYZ_report_and_alarm [of quiet_env "gcode_of 38 2 [(CHR ''Z'', - 5)]" Z_AXIS idle_probe]
  by (simp add: probe_XYZ_def Let_def move_z_def wait_for_idle_def emit_def gcode_of_def
      quiet_env_def idle_probe_def X_AXIS_def Y_AXIS_def Z_AXIS_def)

text \<open>
  C9. With the pin open and no strategy configured, \<open>G29\<close>, \<open>G31\<close> and \<open>G32\<close> call
  \<open>handleGCode\<close> through the null \<open>leveling_strategy\<close>; with \<open>P0\<close> or \<open>P1\<close> they
  call through the selected null pointer; with a leveling strategy that declines and no
  calibration strategy they call through the null \<open>calibration_strategy\<close>. None of these
  calls reports the command as unhandled.
\<close>

theorem handle_gcode_null_strategy_faults:
  "handle_gcode quiet_env (gcode_of 29 0 []) idle_probe = Inl NullPointerDereference
   \<and> handle_gcode quiet_env (gcode_of 31 0 []) idle_probe = Inl NullPointerDereference
   \<and> handle_gcode quiet_env (gcode_of 32 0 []) idle_probe = Inl NullPointerDereference
   \<and> handle_gcode quiet_env (gcode_of 29 0 [(CHR ''P'', 0)]) idle_probe = Inl NullPointerDereference
   \<and> handle_gcode quiet_env (gcode_of 29 0 [(CHR ''P'', 1)]) idle_probe = Inl NullPointerDereference
   \<and> handle_gcode quiet_env (gcode_of 29 0 [])
        (idle_probe\<lparr>leveling_strategy := Some (\<lambda>g. False)\<rparr>) = Inl NullPointerDereference"
  by (simp add: handle_gcode_def call_strategy_def to_uint16_def gcode_of_def quiet_env_def
      idle_probe_def emit_def)

text \<open>
  C10. The sampler runs of a \<open>probe_XYZ\<close> session start from the state with
  \<open>probing\<close> set and \<open>probe_detected\<close> cleared and the debounce count as it was before
  the call; those of a \<open>run_probe\<close> session start from the count 0. (The runs of the
  session are those during the \<open>wait_for_idle\<close> of \<open>move_y\<close> or \<open>move_z\<close>;
  \<open>move_x\<close> has none.) In the sample, a count of 2 left by an earlier session lets a
  straight probe with threshold 2 confirm on its first active sample, where
  \<open>run_probe\<close> only counts to 1.
\<close>

theorem probe_XYZ_keeps_debounce:
  assumes "\<not> pin_get e"
  shows "probe_detected (probe_XYZ e g axis s)
           = probe_detected (run_ticks (if axis = Y_AXIS \<or> axis = Z_AXIS then probe_ticks e else [])
               (s\<lparr>probing := True, probe_detected := False\<rparr>))
       \<and> debounce (probe_XYZ e g axis s)
           = debounce (run_ticks (if axis = Y_AXIS \<or> axis = Z_AXIS then probe_ticks e else [])
               (s\<lparr>probing := True, probe_detected := False\<rparr>))
       \<and> probe_detected (snd (run_probe e mm f md rv s))
           = probe_detected (run_ticks
               ((if dwell_before_probing s > 1 / 10000 then sleep_ticks e else []) @ probe_ticks e)
               (s\<lparr>probing := True, probe_detected := False, debounce := 0\<rparr>))
       \<and> debounce (snd (run_probe e mm f md rv s))
           = debounce (run_ticks
               ((if dwell_before_probing s > 1 / 10000 then sleep_ticks e else []) @ probe_ticks e)
               (s\<lparr>probing := True, probe_detected := False, debounce := 0\<rparr>))"
  using probe_XYZ_session [of e g axis s] run_probe_session [OF assms, of mm f md rv s]
  by blast

theorem probe_XYZ_keeps_debounce_witness:
  "\<not> pin_get (quiet_env\<lparr>probe_ticks := [hit]\<rparr>)
   \<and> debounce (snd (run_probe (quiet_env\<lparr>probe_ticks := [hit, hit]\<rparr>) 0 5 (- 1) False idle_probe)) = 2
   \<and> \<not> probing (snd (run_probe (quiet_env\<lparr>probe_ticks := [hit, hit]\<rparr>) 0 5 (- 1) False idle_probe))
   \<and> probe_detected (probe_XYZ (quiet_env\<lparr>probe_ticks := [hit]\<rparr>)
         (gcode_of 38 3 [(CHR ''Z'', - 5)]) Z_AXIS (idle_probe\<lparr>debounce := 2\<rparr>))
   \<and> \<not> probe_detected (snd (run_probe (quiet_env\<lparr>probe_ticks := [hit]\<rparr>) 0 5 (- 1) False
         (idle_probe\<lparr>debounce := 2\<rparr>)))
   \<and> debounce (snd (run_probe (quiet_env\<lparr>probe_ticks := [hit]\<rparr>) 0 5 (- 1) False
         (idle_probe\<lparr>debounce := 2\<rparr>))) = 1"
proof -
  have prev: "debounce (snd (run_probe (quiet_env\<lparr>probe_ticks := [hit, hit]\<rparr>) 0 5 (- 1) False idle_probe)) = 2
     \<and> \<not> probing (snd (run_probe (quiet_env\<lparr>probe_ticks := [hit, hit]\<rparr>) 0 5 (- 1) False idle_probe))"
    by (simp add: run_probe_def Let_def wait_for_idle_def emit_def read_probe_def quiet_env_def
        idle_probe_def hit_def any_moving_def)
  from prev
    probe_XYZ_keeps_debounce [of "quiet_env\<lparr>probe_ticks := [hit]\<rparr>" "gcode_of 38 3 [(CHR ''Z'', - 5)]" Z_AXIS
            "idle_probe\<lparr>debounce := 2\<rparr>" 0 5 "- 1" False]
  show ?thesis
    by (simp add: read_probe_def stop_all_def quiet_env_def idle_probe_def hit_def any_moving_def
        X_AXIS_def Y_AXIS_def Z_AXIS_def)
qed

end
